theory Spec2Isabelle
  imports Main "HOL-Library.Log_Nat"
begin

section \<open>The JavaScript values that \<open>App.jsx\<close> computes with\<close>

subsection \<open>Numbers\<close>

text \<open>
  A JavaScript Number is an IEEE 754 binary64 value.  A finite one is kept as the rational
  it denotes; \<open>to_double\<close> rounds an exact rational to the nearest binary64 value, ties to
  the even significand, overflowing to an infinity and underflowing through the subnormals
  to zero.  The sign of zero is not kept: none of the operations \<open>App.jsx\<close> applies to a
  number (\<open>isNaN\<close>, \<open>\<le> 0\<close>, \<open>*\<close> followed by \<open>toFixed\<close>) tells \<open>-0\<close> from \<open>0\<close>.
\<close>

datatype number = NaN | PosInf | NegInf | Fin rat

definition pow2 :: "int \<Rightarrow> rat" where
  "pow2 e = (if 0 \<le> e then 2 ^ nat e else 1 / 2 ^ nat (- e))"

definition pow10 :: "int \<Rightarrow> rat" where
  "pow10 e = (if 0 \<le> e then 10 ^ nat e else 1 / 10 ^ nat (- e))"

text \<open>\<open>ilog2 q\<close> is the binary exponent of a positive rational: \<open>2 ^ ilog2 q \<le> q < 2 ^ (ilog2 q + 1)\<close>.\<close>

definition ilog2 :: "rat \<Rightarrow> int" where
  "ilog2 q = (case quotient_of q of (a, b) \<Rightarrow>
     (let e0 = bitlen a - bitlen b
      in if pow2 e0 \<le> q then e0 else e0 - 1))"

definition round_half_even :: "rat \<Rightarrow> int" where
  "round_half_even q = (let f = \<lfloor>q\<rfloor>; r = q - of_int f
     in if r < 1 / 2 then f else if 1 / 2 < r then f + 1
        else if even f then f else f + 1)"

text \<open>
  The unit in the last place of a binary64 value with exponent \<open>e\<close> is \<open>2 ^ (e - 52)\<close>, and
  the exponent never goes below \<open>-1022\<close> (below it the subnormals share one unit,
  \<open>2 ^ -1074\<close>).  A rounded value of \<open>2 ^ 1024\<close> or more is an infinity.
\<close>

definition to_double :: "rat \<Rightarrow> number" where
  "to_double q = (if q = 0 then Fin 0 else
     (let a = \<bar>q\<bar>; e = max (ilog2 a) (- 1022); u = pow2 (e - 52);
          v = of_int (round_half_even (a / u)) * u
      in if e < 1023 then Fin (if 0 < q then v else - v)
         else if pow2 1024 \<le> v then (if 0 < q then PosInf else NegInf)
         else Fin (if 0 < q then v else - v)))"

definition is_negative :: "number \<Rightarrow> bool" where
  "is_negative x = (case x of NegInf \<Rightarrow> True | Fin q \<Rightarrow> q < 0 | _ \<Rightarrow> False)"

text \<open>\<open>x * y\<close>: \<open>NaN\<close> is contagious, an infinity times zero is \<open>NaN\<close>, the rest is rounded.\<close>

definition number_times :: "number \<Rightarrow> number \<Rightarrow> number" where
  "number_times x y = (case (x, y) of
       (Fin a, Fin b) \<Rightarrow> to_double (a * b)
     | _ \<Rightarrow> if x = NaN \<or> y = NaN \<or> x = Fin 0 \<or> y = Fin 0 then NaN
            else if is_negative x = is_negative y then PosInf else NegInf)"

text \<open>\<open>x <= y\<close>: every comparison with \<open>NaN\<close> is false.\<close>

definition number_le :: "number \<Rightarrow> number \<Rightarrow> bool" where
  "number_le x y = (case (x, y) of
       (NaN, _) \<Rightarrow> False | (_, NaN) \<Rightarrow> False
     | (NegInf, _) \<Rightarrow> True | (_, PosInf) \<Rightarrow> True
     | (Fin a, Fin b) \<Rightarrow> a \<le> b
     | _ \<Rightarrow> False)"

definition isNaN :: "number \<Rightarrow> bool" where
  "isNaN x = (x = NaN)"

definition number_negate :: "number \<Rightarrow> number" where
  "number_negate x = (case x of NaN \<Rightarrow> NaN | PosInf \<Rightarrow> NegInf | NegInf \<Rightarrow> PosInf | Fin q \<Rightarrow> Fin (- q))"

subsection \<open>\<open>parseFloat\<close>\<close>

text \<open>
  Strings are lists of ASCII characters.  \<open>parseFloat\<close> drops leading white space, reads the
  longest prefix that is a decimal literal (a sign, then \<open>Infinity\<close> or digits with an
  optional fraction and an optional exponent) and returns the nearest Number, or \<open>NaN\<close> when
  no prefix is a literal.
\<close>

definition is_digit :: "char \<Rightarrow> bool" where
  "is_digit c = (c \<in> set ''0123456789'')"

definition digit_val :: "char \<Rightarrow> int" where
  "digit_val c = int (of_char c) - 48"

definition digits_val :: "string \<Rightarrow> int" where
  "digits_val ds = foldl (\<lambda>a c. 10 * a + digit_val c) 0 ds"

definition is_white_space :: "char \<Rightarrow> bool" where
  "is_white_space c = (c \<in> set [CHR 0x09, CHR 0x0A, CHR 0x0B, CHR 0x0C, CHR 0x0D, CHR '' ''])"

text \<open>The exponent part counts only when at least one digit follows \<open>e\<close> and its sign.\<close>

definition parse_exponent :: "string \<Rightarrow> int" where
  "parse_exponent s = (case s of
       c # r \<Rightarrow>
         if c = CHR ''e'' \<or> c = CHR ''E'' then
           (case r of
              d # r' \<Rightarrow>
                if d = CHR ''-'' then - digits_val (takeWhile is_digit r')
                else if d = CHR ''+'' then digits_val (takeWhile is_digit r')
                else digits_val (takeWhile is_digit r)
            | [] \<Rightarrow> 0)
         else 0
     | [] \<Rightarrow> 0)"

definition parse_unsigned :: "string \<Rightarrow> number" where
  "parse_unsigned s =
     (if take 8 s = ''Infinity'' then PosInf
      else
        (let ip = takeWhile is_digit s; r = dropWhile is_digit s;
             fp = (case r of c # t \<Rightarrow> if c = CHR ''.'' then takeWhile is_digit t else [] | [] \<Rightarrow> []);
             r' = (case r of c # t \<Rightarrow> if c = CHR ''.'' then dropWhile is_digit t else r | [] \<Rightarrow> [])
         in if ip = [] \<and> fp = [] then NaN
            else to_double (of_int (digits_val (ip @ fp))
                             * pow10 (parse_exponent r' - int (length fp)))))"

definition parseFloat :: "string \<Rightarrow> number" where
  "parseFloat s = (case dropWhile is_white_space s of
       [] \<Rightarrow> NaN
     | c # r \<Rightarrow> if c = CHR ''-'' then number_negate (parse_unsigned r)
                else if c = CHR ''+'' then parse_unsigned r
                else parse_unsigned (c # r))"

subsection \<open>\<open>Number.prototype.toFixed\<close>\<close>

fun digits_of :: "nat \<Rightarrow> string" where
  "digits_of n = (if n < 10 then [char_of (48 + n)]
                  else digits_of (n div 10) @ [char_of (48 + n mod 10)])"

text \<open>
  From \<open>10 ^ 21\<close> on, \<open>toFixed\<close> prints the number as \<open>toString\<close> does: the shortest decimal
  significand \<open>s\<close> of \<open>k\<close> digits with \<open>s * 10 ^ (n - k)\<close> rounding to the number, the closest
  one when two qualify, and the exponent \<open>n - 1\<close>.
\<close>

definition candidates :: "rat \<Rightarrow> nat \<Rightarrow> nat \<Rightarrow> int list" where
  "candidates a n k = (let p = pow10 (int n - int k); s0 = \<lfloor>a / p\<rfloor>
     in filter (\<lambda>s. 10 ^ (k - 1) \<le> s \<and> s < 10 ^ k \<and> to_double (of_int s * p) = Fin a)
          [s0, s0 + 1])"

definition closest :: "rat \<Rightarrow> nat \<Rightarrow> nat \<Rightarrow> int list \<Rightarrow> int" where
  "closest a n k ss = (case ss of
       [s] \<Rightarrow> s
     | [s, t] \<Rightarrow>
         (let p = pow10 (int n - int k);
              ds = \<bar>of_int s * p - a\<bar>; dt = \<bar>of_int t * p - a\<bar>
          in if ds < dt then s else if dt < ds then t else if even s then s else t)
     | _ \<Rightarrow> 0)"

fun shortest :: "rat \<Rightarrow> nat \<Rightarrow> nat list \<Rightarrow> int" where
  "shortest a n [] = round_half_even (a / pow10 (int n - 17))"
| "shortest a n (k # ks) =
     (if candidates a n k = [] then shortest a n ks else closest a n k (candidates a n k))"

definition exp_string :: "rat \<Rightarrow> string" where
  "exp_string a = (let n = length (digits_of (nat \<lfloor>a\<rfloor>)) in
     if to_double (10 ^ n) = Fin a then ''1e+'' @ digits_of n
     else (let d = digits_of (nat (shortest a n [1..<18]))
           in (if length d = 1 then d else hd d # CHR ''.'' # tl d) @ ''e+'' @ digits_of (n - 1)))"

text \<open>
  \<open>x.toFixed(f)\<close> for \<open>0 \<le> f \<le> 100\<close>: the integer \<open>n\<close> with \<open>n / 10 ^ f\<close> nearest to the exact
  value of \<open>x\<close>, the larger one of two, printed with \<open>f\<close> digits after the point.
\<close>

definition toFixed :: "number \<Rightarrow> nat \<Rightarrow> string" where
  "toFixed x f = (case x of
       NaN \<Rightarrow> ''NaN'' | PosInf \<Rightarrow> ''Infinity'' | NegInf \<Rightarrow> ''-Infinity''
     | Fin q \<Rightarrow>
         (let s = (if q < 0 then ''-'' else ''''); a = \<bar>q\<bar> in
          if 10 ^ 21 \<le> a then s @ exp_string a
          else
            (let n = \<lfloor>a * 10 ^ f + 1 / 2\<rfloor>; m = digits_of (nat n) in
             if f = 0 then s @ m
             else
               (let m' = (if length m \<le> f then replicate (f + 1 - length m) CHR ''0'' @ m else m);
                    k = length m'
                in s @ take (k - f) m' @ ''.'' @ drop (k - f) m'))))"

subsection \<open>Strings, objects and regular expressions\<close>

text \<open>\<open>toUpperCase\<close> on ASCII strings: the letters \<open>a\<close> to \<open>z\<close> move to \<open>A\<close> to \<open>Z\<close>.\<close>

definition toUpperCase :: "string \<Rightarrow> string" where
  "toUpperCase s =
     map (\<lambda>c. if 97 \<le> (of_char c :: nat) \<and> (of_char c :: nat) \<le> 122
              then char_of (of_char c - 32 :: nat) else c) s"

text \<open>
  The rate table is the object that \<open>response.json()\<close> yields under the key \<open>usd\<close>, kept as
  its own properties in the order of their creation.  \<open>JSON.parse\<close> creates them from the
  members of the document in the order the server wrote them: a name that is new is added
  at the end, a name that is there already keeps its place and takes the later value.
\<close>

type_synonym rate_table = "(string \<times> number) list"

fun create_data_property :: "rate_table \<Rightarrow> string \<Rightarrow> number \<Rightarrow> rate_table" where
  "create_data_property [] k v = [(k, v)]"
| "create_data_property ((k', v') # obj) k v =
     (if k' = k then (k', v) # obj else (k', v') # create_data_property obj k v)"

fun object_from :: "rate_table \<Rightarrow> (string \<times> number) list \<Rightarrow> rate_table" where
  "object_from obj [] = obj"
| "object_from obj ((k, v) # members) = object_from (create_data_property obj k v) members"

definition object_of :: "(string \<times> number) list \<Rightarrow> rate_table" where
  "object_of members = object_from [] members"

text \<open>
  \<open>Object.keys\<close> does not enumerate in the order of creation alone.  The keys that are array
  indices (\<open>0\<close>, or digits without a leading zero, up to \<open>2 ^ 32 - 2\<close>) come first, in
  ascending numeric order; the other keys follow in the order of their creation.
\<close>

definition is_array_index :: "string \<Rightarrow> bool" where
  "is_array_index k =
     (k \<noteq> [] \<and> list_all is_digit k \<and> (k = ''0'' \<or> hd k \<noteq> CHR ''0'') \<and>
      digits_val k \<le> 4294967294)"

definition Object_keys :: "rate_table \<Rightarrow> string list" where
  "Object_keys obj =
     sort_key digits_val (filter is_array_index (map fst obj)) @
     filter (\<lambda>k. \<not> is_array_index k) (map fst obj)"

text \<open>
  Reading a property that the object does not have gives \<open>undefined\<close>, which a product turns
  into \<open>NaN\<close>.
\<close>

definition rate_of :: "rate_table \<Rightarrow> string \<Rightarrow> number" where
  "rate_of obj k = (case map_of obj k of Some r \<Rightarrow> r | None \<Rightarrow> NaN)"

text \<open>
  Regular expressions with the constructs of the literal in \<open>handleAmountChange\<close>.  A pattern
  anchored by \<open>^\<close> and \<open>$\<close> is tested against the whole string; \<open>regex_test\<close> does it by
  consuming the string character by character.
\<close>

datatype regex =
    RNone
  | REmpty
  | RChar char
  | RDigit
  | RSeq regex regex
  | RAlt regex regex
  | RStar regex

definition ROpt :: "regex \<Rightarrow> regex" where
  "ROpt r = RAlt r REmpty"

fun accepts_empty :: "regex \<Rightarrow> bool" where
  "accepts_empty RNone = False"
| "accepts_empty REmpty = True"
| "accepts_empty (RChar c) = False"
| "accepts_empty RDigit = False"
| "accepts_empty (RSeq r s) = (accepts_empty r \<and> accepts_empty s)"
| "accepts_empty (RAlt r s) = (accepts_empty r \<or> accepts_empty s)"
| "accepts_empty (RStar r) = True"

fun after_char :: "char \<Rightarrow> regex \<Rightarrow> regex" where
  "after_char x RNone = RNone"
| "after_char x REmpty = RNone"
| "after_char x (RChar c) = (if x = c then REmpty else RNone)"
| "after_char x RDigit = (if is_digit x then REmpty else RNone)"
| "after_char x (RSeq r s) =
     (if accepts_empty r then RAlt (RSeq (after_char x r) s) (after_char x s)
      else RSeq (after_char x r) s)"
| "after_char x (RAlt r s) = RAlt (after_char x r) (after_char x s)"
| "after_char x (RStar r) = RSeq (after_char x r) (RStar r)"

fun regex_test :: "regex \<Rightarrow> string \<Rightarrow> bool" where
  "regex_test r [] = accepts_empty r"
| "regex_test r (x # xs) = regex_test (after_char x r) xs"

text \<open>The strings a regular expression denotes.\<close>

inductive_set repeated :: "string set \<Rightarrow> string set" for A :: "string set" where
  repeated_none: "[] \<in> repeated A"
| repeated_more: "u \<in> A \<Longrightarrow> v \<in> repeated A \<Longrightarrow> u @ v \<in> repeated A"

fun lang :: "regex \<Rightarrow> string set" where
  "lang RNone = {}"
| "lang REmpty = {[]}"
| "lang (RChar c) = {[c]}"
| "lang RDigit = {[c] |c. is_digit c}"
| "lang (RSeq r s) = {u @ v |u v. u \<in> lang r \<and> v \<in> lang s}"
| "lang (RAlt r s) = lang r \<union> lang s"
| "lang (RStar r) = repeated (lang r)"

section \<open>The component state and what a handler does to it\<close>

text \<open>The seven \<open>useState\<close> cells of \<open>App\<close>; \<open>None\<close> is \<open>null\<close>.\<close>

record state =
  amount :: string
  targetCurrency :: string
  convertedAmount :: "string option"
  rates :: rate_table
  date :: "string option"
  loading :: bool
  error :: "string option"

definition initial_state :: state where
  "initial_state = \<lparr> amount = ''1'', targetCurrency = [], convertedAmount = None,
     rates = [], date = None, loading = True, error = None \<rparr>"

definition API_URL :: string where
  "API_URL = ''https://cdn.jsdelivr.net/npm/@fawazahmed0/currency-api@latest/v1/currencies/usd.json''"

text \<open>
  A handler reads the state of the render it was created in and issues, in order, calls of
  the state setters, of \<open>alert\<close> and of \<open>fetch\<close>.  The setters take effect when the handler has
  run; \<open>alert\<close> and \<open>fetch\<close> leave the state alone.
\<close>

datatype effect =
    SetAmount string
  | SetTargetCurrency string
  | SetConvertedAmount "string option"
  | SetRates rate_table
  | SetDate string
  | SetLoading bool
  | SetError "string option"
  | Alert string
  | Fetch string

fun apply_effect :: "state \<Rightarrow> effect \<Rightarrow> state" where
  "apply_effect st (SetAmount v) = st\<lparr>amount := v\<rparr>"
| "apply_effect st (SetTargetCurrency v) = st\<lparr>targetCurrency := v\<rparr>"
| "apply_effect st (SetConvertedAmount v) = st\<lparr>convertedAmount := v\<rparr>"
| "apply_effect st (SetRates v) = st\<lparr>rates := v\<rparr>"
| "apply_effect st (SetDate v) = st\<lparr>date := Some v\<rparr>"
| "apply_effect st (SetLoading v) = st\<lparr>loading := v\<rparr>"
| "apply_effect st (SetError v) = st\<lparr>error := v\<rparr>"
| "apply_effect st (Alert m) = st"
| "apply_effect st (Fetch u) = st"

definition commit :: "effect list \<Rightarrow> state \<Rightarrow> state" where
  "commit es st = foldl apply_effect st es"

fun alert_of :: "effect \<Rightarrow> string list" where
  "alert_of (Alert m) = [m]"
| "alert_of _ = []"

definition alerts :: "effect list \<Rightarrow> string list" where
  "alerts es = concat (map alert_of es)"

fun fetch_of :: "effect \<Rightarrow> string list" where
  "fetch_of (Fetch u) = [u]"
| "fetch_of _ = []"

definition fetches :: "effect list \<Rightarrow> string list" where
  "fetches es = concat (map fetch_of es)"

subsection \<open>\<open>handleConvert\<close> and \<open>handleAmountChange\<close>\<close>

text \<open>The guard \<open>!amount || isNaN(parseFloat(amount)) || parseFloat(amount) <= 0\<close>.\<close>

definition amount_rejected :: "string \<Rightarrow> bool" where
  "amount_rejected a = (a = [] \<or> isNaN (parseFloat a) \<or> number_le (parseFloat a) (Fin 0))"

definition handleConvert :: "state \<Rightarrow> effect list" where
  "handleConvert st =
     SetConvertedAmount None #
       (if amount_rejected (amount st) then [Alert ''Please enter a valid positive amount.'']
        else if targetCurrency st = [] then [Alert ''Please select a target currency.'']
        else
          (let rate = rate_of (rates st) (targetCurrency st);
               result = toFixed (number_times (parseFloat (amount st)) rate) 2
           in [SetConvertedAmount (Some result)]))"

definition amount_pattern :: regex where
  "amount_pattern = RSeq (RStar RDigit) (RSeq (ROpt (RChar CHR ''.'')) (RStar RDigit))"

definition handleAmountChange :: "string \<Rightarrow> effect list" where
  "handleAmountChange v = (if regex_test amount_pattern v then [SetAmount v] else [])"

text \<open>The \<open>onChange\<close> of the selector.\<close>

definition handleCurrencyChange :: "string \<Rightarrow> effect list" where
  "handleCurrencyChange v = [SetTargetCurrency v]"

subsection \<open>\<open>fetchCurrencyData\<close>\<close>

text \<open>
  What the two \<open>await\<close>s of \<open>fetchCurrencyData\<close> can produce.  \<open>fetch\<close> rejects with a thrown
  value or resolves to a response with a status; \<open>response.json()\<close> rejects in its turn or
  resolves to the document, which has the shape \<open>{ date: string, usd: { code: number } }\<close>.
  The document is kept as the server wrote it: its date and, under \<open>usd\<close>, the members in
  the order of the text.  \<open>data.usd\<close> is the object made of them.
  A thrown value is an \<open>Error\<close> with its message, or something else.
\<close>

datatype thrown = ErrorObject string | OtherValue

record document =
  doc_date :: string
  usd :: "(string \<times> number) list"

datatype json_result = JsonRejected thrown | JsonResolved document

record response =
  status :: nat
  json :: json_result

datatype fetch_result = FetchRejected thrown | FetchResolved response

definition ok :: "response \<Rightarrow> bool" where
  "ok r = (200 \<le> status r \<and> status r \<le> 299)"

text \<open>The statements before the first \<open>await\<close>.\<close>

definition fetchCurrencyData_start :: "effect list" where
  "fetchCurrencyData_start = [SetLoading True, SetError None, Fetch API_URL]"

text \<open>
  The rest of the \<open>try\<close> block: the setter calls made and the value thrown, if any.  An
  object is truthy, so \<open>data.usd && \<dots>\<close> only asks whether it has a key.
\<close>

definition try_block :: "fetch_result \<Rightarrow> effect list \<times> thrown option" where
  "try_block r = (case r of
       FetchRejected t \<Rightarrow> ([], Some t)
     | FetchResolved resp \<Rightarrow>
         if \<not> ok resp
         then ([], Some (ErrorObject ''Network response was not ok. Please try again later.''))
         else (case json resp of
                 JsonRejected t \<Rightarrow> ([], Some t)
               | JsonResolved data \<Rightarrow>
                   ([SetDate (doc_date data), SetRates (object_of (usd data))] @
                    (if 0 < length (Object_keys (object_of (usd data)))
                     then [SetTargetCurrency (Object_keys (object_of (usd data)) ! 0)]
                     else []),
                    None)))"

definition catch_block :: "thrown \<Rightarrow> effect list" where
  "catch_block err = (case err of
       ErrorObject message \<Rightarrow> [SetError (Some message)]
     | OtherValue \<Rightarrow> [SetError (Some ''An unknown error occurred.'')])"

definition finally_block :: "effect list" where
  "finally_block = [SetLoading False]"

definition fetchCurrencyData_resume :: "fetch_result \<Rightarrow> effect list" where
  "fetchCurrencyData_resume r = (case try_block r of
       (es, None) \<Rightarrow> es @ finally_block
     | (es, Some err) \<Rightarrow> es @ catch_block err @ finally_block)"

subsection \<open>What \<open>App\<close> renders\<close>

text \<open>A string cell is truthy when it is neither \<open>null\<close> nor empty.\<close>

definition truthy :: "string option \<Rightarrow> bool" where
  "truthy v = (case v of None \<Rightarrow> False | Some s \<Rightarrow> s \<noteq> [])"

text \<open>Each option of the selector is its value and the text it shows.\<close>

record view =
  input_value :: string
  select_disabled :: bool
  select_value :: string
  select_options :: "(string \<times> string) list"
  button_disabled :: bool
  button_text :: string
  error_box :: "string option"
  result_box :: "(string \<times> string) option"
  date_footer :: "string option"

definition render :: "state \<Rightarrow> view" where
  "render st = \<lparr>
     input_value = amount st,
     select_disabled = loading st,
     select_value = targetCurrency st,
     select_options =
       (if loading st then [(''Loading currencies...'', ''Loading currencies...'')]
        else map (\<lambda>currency. (currency, toUpperCase currency)) (Object_keys (rates st))),
     button_disabled = loading st,
     button_text = (if loading st then ''Fetching Rates...'' else ''Convert Amount''),
     error_box = (if truthy (error st) then error st else None),
     result_box =
       (case convertedAmount st of
          Some r \<Rightarrow> if r \<noteq> [] \<and> \<not> truthy (error st)
                    then Some (r, toUpperCase (targetCurrency st)) else None
        | None \<Rightarrow> None),
     date_footer =
       (case date st of
          Some d \<Rightarrow> if d \<noteq> [] \<and> \<not> truthy (error st)
                    then Some (''Rates last updated on: '' @ d) else None
        | None \<Rightarrow> None) \<rparr>"

section \<open>The life of the component\<close>

text \<open>
  Beside the state, the running component has the requests it has issued with \<open>fetch\<close> and
  those of them that have not settled yet.  The effect of \<open>useEffect(\<dots>, [])\<close> runs once, when
  the component mounts.  After that the component reacts to events: a request settles, the
  user edits the amount, picks an option of the enabled selector, or presses the enabled
  button.
\<close>

record system =
  app :: state
  issued :: nat
  outstanding :: nat

definition perform :: "effect list \<Rightarrow> system \<Rightarrow> system" where
  "perform es s = \<lparr> app = commit es (app s),
                    issued = issued s + length (fetches es),
                    outstanding = outstanding s + length (fetches es) \<rparr>"

definition mount :: system where
  "mount = perform fetchCurrencyData_start \<lparr> app = initial_state, issued = 0, outstanding = 0 \<rparr>"

datatype event =
    Settled fetch_result
  | AmountTyped string
  | CurrencyChosen string
  | ConvertClicked

definition step :: "event \<Rightarrow> system \<Rightarrow> system option" where
  "step ev s = (case ev of
       Settled r \<Rightarrow>
         if 0 < outstanding s
         then Some ((perform (fetchCurrencyData_resume r) s)\<lparr>outstanding := outstanding s - 1\<rparr>)
         else None
     | AmountTyped v \<Rightarrow> Some (perform (handleAmountChange v) s)
     | CurrencyChosen c \<Rightarrow>
         if \<not> select_disabled (render (app s)) \<and> List.member (map fst (select_options (render (app s)))) c
         then Some (perform (handleCurrencyChange c) s) else None
     | ConvertClicked \<Rightarrow>
         if \<not> button_disabled (render (app s)) then Some (perform (handleConvert (app s)) s)
         else None)"

fun run :: "event list \<Rightarrow> system \<Rightarrow> system option" where
  "run [] s = Some s"
| "run (ev # evs) s = (case step ev s of None \<Rightarrow> None | Some s' \<Rightarrow> run evs s')"

text \<open>
  The fetch state of the specification, read off the cells \<open>loading\<close>, \<open>error\<close>, \<open>date\<close> and
  \<open>rates\<close>, and the fetch states a run goes through.
\<close>

datatype fetch_state = Loading | Success "string option" rate_table | Failure string

definition FetchState :: "state \<Rightarrow> fetch_state" where
  "FetchState st =
     (if loading st then Loading
      else (case error st of Some m \<Rightarrow> Failure m | None \<Rightarrow> Success (date st) (rates st)))"

fun trajectory :: "event list \<Rightarrow> system \<Rightarrow> fetch_state list" where
  "trajectory [] s = [FetchState (app s)]"
| "trajectory (ev # evs) s =
     FetchState (app s) # (case step ev s of None \<Rightarrow> [] | Some s' \<Rightarrow> trajectory evs s')"

fun transitions :: "fetch_state list \<Rightarrow> nat" where
  "transitions (x # y # zs) = (if x = y then 0 else 1) + transitions (y # zs)"
| "transitions zs = 0"

fun is_settled :: "event \<Rightarrow> bool" where
  "is_settled (Settled r) = True"
| "is_settled ev = False"

text \<open>The conversion result on display: the stored amount with the selected currency.\<close>

definition ConversionResult :: "state \<Rightarrow> (string \<times> string) option" where
  "ConversionResult st = map_option (\<lambda>r. (r, targetCurrency st)) (convertedAmount st)"

text \<open>An amount parses to a positive number.\<close>

definition is_positive :: "number \<Rightarrow> bool" where
  "is_positive x = (case x of PosInf \<Rightarrow> True | Fin q \<Rightarrow> 0 < q | _ \<Rightarrow> False)"

section \<open>Example documents and states\<close>

text \<open>
  The document \<open>{date: "2024-01-01", usd: {"eur": 0.9, "gbp": 0.8}}\<close>, a document whose only
  currency code is the empty string, a response with status 200 that carries a document, and
  the state of the component once the request made at mount has settled with it.
\<close>

definition example_rates :: rate_table where
  "example_rates = [(''eur'', to_double (9 / 10)), (''gbp'', to_double (8 / 10))]"

definition example_document :: document where
  "example_document = \<lparr> doc_date = ''2024-01-01'', usd = example_rates \<rparr>"

definition empty_code_document :: document where
  "empty_code_document = \<lparr> doc_date = ''2024-01-01'', usd = [([], Fin 1)] \<rparr>"

text \<open>The document \<open>{date: "2024-01-01", usd: {"eur": 0.9, "1": 5}}\<close>.\<close>

definition index_key_document :: document where
  "index_key_document = \<lparr> doc_date = ''2024-01-01'', usd = [(''eur'', to_double (9 / 10)), (''1'', Fin 5)] \<rparr>"

definition resolved :: "document \<Rightarrow> fetch_result" where
  "resolved d = FetchResolved \<lparr> status = 200, json = JsonResolved d \<rparr>"

definition loaded :: "document \<Rightarrow> state" where
  "loaded d = commit (fetchCurrencyData_resume (resolved d)) (app mount)"

text \<open>
  The state after the example document has arrived, the user has converted the initial
  amount \<open>1\<close> to \<open>eur\<close> and has then typed \<open>0\<close> into the amount field.
\<close>

definition stale_result_state :: state where
  "stale_result_state = (loaded example_document)\<lparr>amount := ''0'', convertedAmount := Some ''0.90''\<rparr>"

text \<open>A response with status 500; its body is never read.\<close>

definition server_error_response :: response where
  "server_error_response = \<lparr> status = 500, json = JsonRejected OtherValue \<rparr>"

text \<open>A life of the component in which the user types and the request never settles.\<close>

definition typing_only :: "event list" where
  "typing_only = [AmountTyped ''2'', AmountTyped ''25'']"

text \<open>
  The two phases of a life: the one request is outstanding and the component is loading, or
  the request has settled and the component is not loading.
\<close>

definition waiting :: "system \<Rightarrow> bool" where
  "waiting s = (loading (app s) \<and> issued s = 1 \<and> outstanding s = 1)"

definition finished :: "system \<Rightarrow> bool" where
  "finished s = (\<not> loading (app s) \<and> issued s = 1 \<and> outstanding s = 0)"

section \<open>Properties of the convert action\<close>

text \<open>The guard of \<open>handleConvert\<close> lets an amount through exactly when it parses to a positive number.\<close>

lemma positive_iff_accepted: "is_positive (parseFloat a) \<longleftrightarrow> \<not> amount_rejected a"
proof (cases "a = []")
  case True
  then show ?thesis
    by (simp add: amount_rejected_def parseFloat_def is_positive_def)
next
  case False
  then show ?thesis
    by (cases "parseFloat a")
       (auto simp: amount_rejected_def is_positive_def isNaN_def number_le_def)
qed

text \<open>
  Claim C9.  Whatever the state, the first thing \<open>handleConvert\<close> does is
  \<open>setConvertedAmount(null)\<close>; the validation decides only what follows.  So when the amount
  or the target currency fails validation, the handler consists of the reset and one alert,
  and the conversion result is \<open>null\<close> afterwards, whatever was stored before.
\<close>

theorem handleConvert_resets_first:
  "(\<exists>rest. handleConvert st = SetConvertedAmount None # rest) \<and>
   (amount_rejected (amount st) \<or> targetCurrency st = [] \<longrightarrow>
      (\<exists>m. handleConvert st = [SetConvertedAmount None, Alert m]) \<and>
      convertedAmount (commit (handleConvert st) st) = None \<and>
      ConversionResult (commit (handleConvert st) st) = None)"
  by (simp add: handleConvert_def commit_def ConversionResult_def)

theorem handleConvert_resets_first_witness:
  "amount_rejected ''0'' \<and>
   convertedAmount
     (commit (handleConvert (initial_state\<lparr>amount := ''0'', convertedAmount := Some ''0.90''\<rparr>))
        (initial_state\<lparr>amount := ''0'', convertedAmount := Some ''0.90''\<rparr>)) = None"
proof -
  have h: "amount_rejected ''0''" by code_simp
  show ?thesis
    using h handleConvert_resets_first
      [of "initial_state\<lparr>amount := ''0'', convertedAmount := Some ''0.90''\<rparr>"]
    by simp
qed

text \<open>
  Claim C10.  The amount is checked before the target currency: when the amount is rejected,
  the only alert is the one about the amount, also when no currency is selected, and the
  handler does the same whatever the target currency is.
\<close>

theorem amount_checked_before_currency:
  "amount_rejected (amount st) \<Longrightarrow>
     alerts (handleConvert st) = [''Please enter a valid positive amount.''] \<and>
     handleConvert (st\<lparr>targetCurrency := c\<rparr>) = handleConvert st"
  by (simp add: handleConvert_def alerts_def)

theorem amount_checked_before_currency_witness:
  "amount_rejected (amount (initial_state\<lparr>amount := ''-5''\<rparr>)) \<and>
   targetCurrency (initial_state\<lparr>amount := ''-5''\<rparr>) = [] \<and>
   alerts (handleConvert (initial_state\<lparr>amount := ''-5''\<rparr>)) =
     [''Please enter a valid positive amount.'']"
proof -
  have h: "amount_rejected (amount (initial_state\<lparr>amount := ''-5''\<rparr>))" by code_simp
  show ?thesis
    using h amount_checked_before_currency [OF h, of "[]"]
    by (simp add: initial_state_def)
qed

text \<open>
  Claim C8.  What \<open>handleConvert\<close> does is a function of the amount, the target currency and
  the rate table alone: two states that agree on the three give the same setter calls, the
  same alerts and the same conversion result, whatever the other cells hold, and no request
  is issued.
\<close>

theorem handleConvert_deterministic:
  "amount s = amount t \<Longrightarrow> targetCurrency s = targetCurrency t \<Longrightarrow> rates s = rates t \<Longrightarrow>
     handleConvert s = handleConvert t \<and>
     alerts (handleConvert s) = alerts (handleConvert t) \<and>
     ConversionResult (commit (handleConvert s) s) = ConversionResult (commit (handleConvert t) t) \<and>
     fetches (handleConvert s) = []"
  by (simp add: handleConvert_def commit_def ConversionResult_def fetches_def Let_def)

theorem handleConvert_deterministic_witness:
  "handleConvert (initial_state\<lparr>targetCurrency := ''eur'', rates := [(''eur'', to_double (9 / 10))]\<rparr>) =
   handleConvert (initial_state\<lparr>targetCurrency := ''eur'', rates := [(''eur'', to_double (9 / 10))],
      convertedAmount := Some ''7.00'', date := Some ''2024-01-01'', loading := False\<rparr>)"
  using handleConvert_deterministic
    [of "initial_state\<lparr>targetCurrency := ''eur'', rates := [(''eur'', to_double (9 / 10))]\<rparr>"
        "initial_state\<lparr>targetCurrency := ''eur'', rates := [(''eur'', to_double (9 / 10))],
      convertedAmount := Some ''7.00'', date := Some ''2024-01-01'', loading := False\<rparr>"]
  by simp

lemma loaded_example:
  "loaded example_document = \<lparr> amount = ''1'', targetCurrency = ''eur'', convertedAmount = None,
     rates = example_rates, date = Some ''2024-01-01'', loading = False, error = None \<rparr>"
  by code_simp

lemma loaded_empty_code:
  "loaded empty_code_document = \<lparr> amount = ''1'', targetCurrency = [], convertedAmount = None,
     rates = [([], Fin 1)], date = Some ''2024-01-01'', loading = False, error = None \<rparr>"
  by code_simp

text \<open>
  Claim C1, as the code has it.  When the amount \<open>A\<close> parses to a positive number and the
  selected currency code \<open>C\<close> is not the empty string and has the rate \<open>r\<close> in the rate table,
  \<open>handleConvert\<close> stores \<open>(parseFloat(A) * r).toFixed(2)\<close>, the product rounded to two decimal
  places (to the nearest hundredth of its exact binary value, away from zero when two are
  equally near), and the conversion result is that value with the code \<open>C\<close>.  The code must
  be non-empty because the handler takes the empty string for "no currency selected".
\<close>

theorem convert_stores_rounded_product:
  "is_positive (parseFloat A) \<Longrightarrow> C \<noteq> [] \<Longrightarrow> map_of (rates st) C = Some r \<Longrightarrow>
   amount st = A \<Longrightarrow> targetCurrency st = C \<Longrightarrow>
     handleConvert st =
       [SetConvertedAmount None,
        SetConvertedAmount (Some (toFixed (number_times (parseFloat A) r) 2))] \<and>
     ConversionResult (commit (handleConvert st) st) =
       Some (toFixed (number_times (parseFloat A) r) 2, C)"
  by (simp add: positive_iff_accepted handleConvert_def commit_def ConversionResult_def rate_of_def)

theorem convert_stores_rounded_product_witness:
  "is_positive (parseFloat ''1'') \<and>
   ConversionResult (commit (handleConvert (loaded example_document)) (loaded example_document)) =
     Some (''0.90'', ''eur'')"
proof -
  have p: "is_positive (parseFloat ''1'')" by code_simp
  have t: "toFixed (number_times (parseFloat ''1'') (to_double (9 / 10))) 2 = ''0.90''"
    by code_simp
  have m: "map_of (rates (loaded example_document)) ''eur'' = Some (to_double (9 / 10))"
    by (simp add: loaded_example example_rates_def)
  have a: "amount (loaded example_document) = ''1''"
    and c: "targetCurrency (loaded example_document) = ''eur''"
    by (simp_all add: loaded_example)
  have "ConversionResult (commit (handleConvert (loaded example_document)) (loaded example_document)) =
      Some (toFixed (number_times (parseFloat ''1'') (to_double (9 / 10))) 2, ''eur'')"
    by (rule convert_stores_rounded_product [OF p _ m a c, THEN conjunct2]) simp
  with p t show ?thesis by simp
qed

text \<open>
  Claim C1 as stated fails for the currency code \<open>""\<close>.  After the document
  \<open>{date: "2024-01-01", usd: {"": 1}}\<close> has arrived, the amount is \<open>1\<close>, the selected code is
  the first key \<open>""\<close>, and it is present in the rate table with rate 1; the convert action
  raises the alert about the target currency and stores no result.
\<close>

theorem empty_code_counterexample:
  "is_positive (parseFloat (amount (loaded empty_code_document))) \<and>
   map_of (rates (loaded empty_code_document)) (targetCurrency (loaded empty_code_document)) =
     Some (Fin 1) \<and>
   alerts (handleConvert (loaded empty_code_document)) = [''Please select a target currency.''] \<and>
   ConversionResult
     (commit (handleConvert (loaded empty_code_document)) (loaded empty_code_document)) = None"
proof -
  have p: "is_positive (parseFloat ''1'')" by code_simp
  then have a: "\<not> amount_rejected ''1''" by (simp add: positive_iff_accepted)
  show ?thesis
    using p a
    by (simp add: loaded_empty_code handleConvert_def alerts_def commit_def ConversionResult_def)
qed

text \<open>
  Claim C2, as the code has it.  When the amount does not parse to a positive number (as
  \<open>"0"\<close>, \<open>"-5"\<close> and \<open>""\<close> do not) or no target currency is selected, the convert action raises
  exactly one alert and stores no new result; it does not leave the conversion result as it
  was but resets it to \<open>null\<close>, and changes no other cell.
\<close>

theorem failed_validation_resets_result:
  "a \<in> {''0'', ''-5'', ''''} \<or> \<not> is_positive (parseFloat a) \<or> c = [] \<Longrightarrow>
   amount st = a \<Longrightarrow> targetCurrency st = c \<Longrightarrow>
     length (alerts (handleConvert st)) = 1 \<and>
     commit (handleConvert st) st = st\<lparr>convertedAmount := None\<rparr> \<and>
     ConversionResult (commit (handleConvert st) st) = None"
proof -
  assume h: "a \<in> {''0'', ''-5'', ''''} \<or> \<not> is_positive (parseFloat a) \<or> c = []"
    and a: "amount st = a" and c: "targetCurrency st = c"
  have r0: "amount_rejected ''0''" by code_simp
  have r5: "amount_rejected ''-5''" by code_simp
  have re: "amount_rejected ''''" by code_simp
  from h r0 r5 re have "amount_rejected a \<or> c = []"
    by (auto simp: positive_iff_accepted)
  with a c show ?thesis
    by (auto simp: handleConvert_def alerts_def commit_def ConversionResult_def)
qed

theorem failed_validation_resets_result_witness:
  "\<not> is_positive (parseFloat ''-5'') \<and>
   ConversionResult
     (commit (handleConvert (initial_state\<lparr>amount := ''-5'', convertedAmount := Some ''0.90''\<rparr>))
        (initial_state\<lparr>amount := ''-5'', convertedAmount := Some ''0.90''\<rparr>)) = None"
proof -
  have r: "amount_rejected ''-5''" by code_simp
  then have p: "\<not> is_positive (parseFloat ''-5'')" by (simp add: positive_iff_accepted)
  then have h: "''-5'' \<in> {''0'', ''-5'', ''''} \<or> \<not> is_positive (parseFloat ''-5'') \<or> ([] :: string) = []"
    by simp
  have a: "amount (initial_state\<lparr>amount := ''-5'', convertedAmount := Some ''0.90''\<rparr>) = ''-5''"
    and c: "targetCurrency (initial_state\<lparr>amount := ''-5'', convertedAmount := Some ''0.90''\<rparr>) = []"
    by (simp_all add: initial_state_def)
  have "ConversionResult
     (commit (handleConvert (initial_state\<lparr>amount := ''-5'', convertedAmount := Some ''0.90''\<rparr>))
        (initial_state\<lparr>amount := ''-5'', convertedAmount := Some ''0.90''\<rparr>)) = None"
    by (rule failed_validation_resets_result [OF h a c, THEN conjunct2, THEN conjunct2])
  with p show ?thesis by simp
qed

text \<open>
  Claim C2 as stated fails when a result is on display.  The run below leaves the result
  \<open>0.90\<close> \<open>eur\<close> stored and the amount \<open>0\<close> in the field; the amount does not parse to a positive
  number, the convert action raises the alert, and the conversion result afterwards is
  \<open>null\<close>, not what it was before.
\<close>

theorem stale_result_counterexample:
  "map_option app (run [Settled (resolved example_document), ConvertClicked, AmountTyped ''0''] mount) =
     Some stale_result_state \<and>
   \<not> is_positive (parseFloat (amount stale_result_state)) \<and>
   alerts (handleConvert stale_result_state) = [''Please enter a valid positive amount.''] \<and>
   ConversionResult stale_result_state = Some (''0.90'', ''eur'') \<and>
   ConversionResult (commit (handleConvert stale_result_state) stale_result_state) = None"
proof -
  have run: "map_option app
      (run [Settled (resolved example_document), ConvertClicked, AmountTyped ''0''] mount) =
     Some stale_result_state"
    by code_simp
  have r: "amount_rejected ''0''" by code_simp
  then have p: "\<not> is_positive (parseFloat ''0'')" by (simp add: positive_iff_accepted)
  show ?thesis
    using run r p
    by (simp add: stale_result_state_def loaded_example handleConvert_def alerts_def
          commit_def ConversionResult_def)
qed

section \<open>Properties of the input filter\<close>

text \<open>\<open>regex_test\<close> decides membership in the language of the regular expression.\<close>

lemma accepts_empty_lang: "accepts_empty r \<longleftrightarrow> [] \<in> lang r"
  by (induction r) (auto intro: repeated.intros)

lemma repeated_cons:
  "x # w \<in> repeated A \<longleftrightarrow> (\<exists>u v. w = u @ v \<and> x # u \<in> A \<and> v \<in> repeated A)"
proof
  assume "x # w \<in> repeated A"
  then show "\<exists>u v. w = u @ v \<and> x # u \<in> A \<and> v \<in> repeated A"
  proof (induction "x # w" rule: repeated.induct)
    case (repeated_more u v)
    then show ?case
      by (cases u) auto
  qed
next
  assume "\<exists>u v. w = u @ v \<and> x # u \<in> A \<and> v \<in> repeated A"
  then obtain u v where "w = u @ v" "x # u \<in> A" "v \<in> repeated A" by blast
  then show "x # w \<in> repeated A"
    using repeated_more [of "x # u" A v] by simp
qed

lemma after_char_lang: "w \<in> lang (after_char x r) \<longleftrightarrow> x # w \<in> lang r"
proof (induction r arbitrary: w)
  case (RSeq r s)
  show ?case
  proof
    assume "w \<in> lang (after_char x (RSeq r s))"
    then show "x # w \<in> lang (RSeq r s)"
      using RSeq by (auto simp: accepts_empty_lang split: if_splits) (metis append_Cons append_Nil)+
  next
    assume "x # w \<in> lang (RSeq r s)"
    then obtain u v where uv: "x # w = u @ v" "u \<in> lang r" "v \<in> lang s" by auto
    show "w \<in> lang (after_char x (RSeq r s))"
    proof (cases u)
      case Nil
      with uv RSeq show ?thesis by (auto simp: accepts_empty_lang)
    next
      case (Cons y u')
      with uv RSeq show ?thesis by (auto simp: accepts_empty_lang)
    qed
  qed
next
  case (RStar r)
  then show ?case by (auto simp: repeated_cons)
qed auto

lemma regex_test_lang: "regex_test r w \<longleftrightarrow> w \<in> lang r"
  by (induction w arbitrary: r) (simp_all add: accepts_empty_lang after_char_lang)

lemma repeated_digits: "repeated (lang RDigit) = {w. list_all is_digit w}"
proof (intro set_eqI iffI)
  fix w assume "w \<in> repeated (lang RDigit)"
  then show "w \<in> {w. list_all is_digit w}"
    by (induction rule: repeated.induct) auto
next
  fix w assume "w \<in> {w. list_all is_digit w}"
  then have "list_all is_digit w" by simp
  then show "w \<in> repeated (lang RDigit)"
  proof (induction w)
    case Nil
    show ?case by (rule repeated_none)
  next
    case (Cons c w)
    then have "[c] \<in> lang RDigit" "w \<in> repeated (lang RDigit)" by auto
    then have "[c] @ w \<in> repeated (lang RDigit)" by (rule repeated_more)
    then show ?case by simp
  qed
qed

lemma lang_amount_pattern:
  "lang amount_pattern =
     {ds @ p @ fs |ds p fs. list_all is_digit ds \<and> (p = [] \<or> p = ''.'') \<and> list_all is_digit fs}"
  unfolding amount_pattern_def ROpt_def
  by (auto simp: repeated_digits simp del: lang.simps(4))

text \<open>
  Claim C3.  For every string \<open>S\<close> offered as the new value of the amount field,
  \<open>handleAmountChange\<close> sets the field to \<open>S\<close> exactly when \<open>S\<close> matches \<open>^\d*\.?\d*$\<close>, that is
  when \<open>S\<close> consists of digits, then at most one decimal point, then digits; otherwise it
  calls no setter and the state stays as it is.  The empty string and a lone decimal point
  match.
\<close>

theorem amount_filter:
  "(handleAmountChange S = [SetAmount S] \<longleftrightarrow> S \<in> lang amount_pattern) \<and>
   (S \<in> lang amount_pattern \<longrightarrow> commit (handleAmountChange S) st = st\<lparr>amount := S\<rparr>) \<and>
   (S \<notin> lang amount_pattern \<longrightarrow> handleAmountChange S = [] \<and> commit (handleAmountChange S) st = st) \<and>
   (S \<in> lang amount_pattern \<longleftrightarrow>
      (\<exists>ds p fs. S = ds @ p @ fs \<and> list_all is_digit ds \<and> (p = [] \<or> p = ''.'') \<and>
         list_all is_digit fs)) \<and>
   [] \<in> lang amount_pattern \<and> ''.'' \<in> lang amount_pattern"
proof -
  have "regex_test amount_pattern []" by code_simp
  then have e: "[] \<in> lang amount_pattern" by (simp add: regex_test_lang)
  have "regex_test amount_pattern ''.''" by code_simp
  then have d: "''.'' \<in> lang amount_pattern" by (simp add: regex_test_lang)
  have l: "S \<in> lang amount_pattern \<longleftrightarrow>
      (\<exists>ds p fs. S = ds @ p @ fs \<and> list_all is_digit ds \<and> (p = [] \<or> p = ''.'') \<and>
         list_all is_digit fs)"
    unfolding lang_amount_pattern by blast
  have h1: "handleAmountChange S = [SetAmount S] \<longleftrightarrow> S \<in> lang amount_pattern"
    by (simp add: handleAmountChange_def regex_test_lang)
  have h2: "S \<in> lang amount_pattern \<longrightarrow> commit (handleAmountChange S) st = st\<lparr>amount := S\<rparr>"
    by (simp add: handleAmountChange_def regex_test_lang commit_def)
  have h3: "S \<notin> lang amount_pattern \<longrightarrow>
      handleAmountChange S = [] \<and> commit (handleAmountChange S) st = st"
    by (simp add: handleAmountChange_def regex_test_lang commit_def)
  show ?thesis
    by (intro conjI) (fact h1 h2 h3 l e d)+
qed

theorem amount_filter_witness:
  "''12.5'' \<in> lang amount_pattern \<and>
   commit (handleAmountChange ''12.5'') initial_state = initial_state\<lparr>amount := ''12.5''\<rparr> \<and>
   ''1.2.5'' \<notin> lang amount_pattern \<and>
   commit (handleAmountChange ''1.2.5'') initial_state = initial_state"
proof -
  have "regex_test amount_pattern ''12.5''" by code_simp
  then have a: "''12.5'' \<in> lang amount_pattern" by (simp add: regex_test_lang)
  have "\<not> regex_test amount_pattern ''1.2.5''" by code_simp
  then have b: "''1.2.5'' \<notin> lang amount_pattern" by (simp add: regex_test_lang)
  show ?thesis
    using a b amount_filter [of "''12.5''" initial_state] amount_filter [of "''1.2.5''" initial_state]
    by blast
qed

section \<open>Properties of the rate loader\<close>

lemma resume_not_ok:
  "\<not> ok resp \<Longrightarrow> fetchCurrencyData_resume (FetchResolved resp) =
     [SetError (Some ''Network response was not ok. Please try again later.''), SetLoading False]"
  by (simp add: fetchCurrencyData_resume_def try_block_def catch_block_def finally_block_def)

text \<open>
  Claim C4, as the code has it.  When the request resolves to a response whose status is
  not a success status, the component ends in the failure state with the non-empty message
  of the \<open>Error\<close> thrown for it, which is shown.  The \<open>finally\<close> block has cleared \<open>loading\<close>, so
  the selector is enabled, not disabled; the rate table is left as it was, so after a
  failure of the request made at mount the selector has no option to choose.
\<close>

theorem http_failure_enables_selector:
  "\<not> ok resp \<Longrightarrow>
     (\<exists>m. m \<noteq> [] \<and>
        FetchState (commit (fetchCurrencyData_resume (FetchResolved resp)) st) = Failure m \<and>
        error_box (render (commit (fetchCurrencyData_resume (FetchResolved resp)) st)) = Some m) \<and>
     \<not> select_disabled (render (commit (fetchCurrencyData_resume (FetchResolved resp)) st)) \<and>
     rates (commit (fetchCurrencyData_resume (FetchResolved resp)) st) = rates st \<and>
     select_options (render (commit (fetchCurrencyData_resume (FetchResolved resp)) (app mount))) = []"
  by (simp add: resume_not_ok commit_def FetchState_def render_def truthy_def mount_def perform_def
        fetchCurrencyData_start_def initial_state_def Object_keys_def)

theorem http_failure_enables_selector_witness:
  "\<not> ok server_error_response \<and>
   FetchState (commit (fetchCurrencyData_resume (FetchResolved server_error_response)) (app mount)) =
     Failure ''Network response was not ok. Please try again later.''"
proof -
  have h: "\<not> ok server_error_response" by (simp add: ok_def server_error_response_def)
  have r: "fetchCurrencyData_resume (FetchResolved server_error_response) =
     [SetError (Some ''Network response was not ok. Please try again later.''), SetLoading False]"
    using h by (rule resume_not_ok)
  from http_failure_enables_selector [OF h, of "app mount"]
  obtain m where "FetchState (commit (fetchCurrencyData_resume (FetchResolved server_error_response)) (app mount)) = Failure m"
    by blast
  moreover have "FetchState (commit (fetchCurrencyData_resume (FetchResolved server_error_response)) (app mount)) =
     Failure ''Network response was not ok. Please try again later.''"
    by (simp add: r commit_def FetchState_def)
  ultimately show ?thesis using h by simp
qed

text \<open>
  Claim C4 as stated fails for the status 500: the selector is disabled while the request
  is outstanding and enabled after it has settled.
\<close>

theorem selector_enabled_counterexample:
  "\<not> ok server_error_response \<and>
   select_disabled (render (app mount)) \<and>
   map_option app (run [Settled (FetchResolved server_error_response)] mount) =
     Some (commit (fetchCurrencyData_resume (FetchResolved server_error_response)) (app mount)) \<and>
   \<not> select_disabled
       (render (commit (fetchCurrencyData_resume (FetchResolved server_error_response)) (app mount)))"
  by code_simp

text \<open>
  Claim C5, as the code has it.  After the document
  \<open>{date: "2024-01-01", usd: {"eur": 0.9, "gbp": 0.8}}\<close> has arrived, the selector lists the
  options \<open>EUR\<close> and \<open>GBP\<close>, the keys of the rate table in upper case and in their order, and
  the footer shows the date \<open>2024-01-01\<close>.
\<close>

theorem example_document_rendered:
  "map_option app (run [Settled (resolved example_document)] mount) = Some (loaded example_document) \<and>
   select_options (render (loaded example_document)) = [(''eur'', ''EUR''), (''gbp'', ''GBP'')] \<and>
   map snd (select_options (render (loaded example_document))) = [''EUR'', ''GBP''] \<and>
   date_footer (render (loaded example_document)) = Some ''Rates last updated on: 2024-01-01''"
  by code_simp

text \<open>Claim C5 as stated names the second option \<open>GBR\<close>; the selector does not list it.\<close>

theorem gbr_counterexample:
  "map snd (select_options (render (loaded example_document))) \<noteq> [''EUR'', ''GBR'']"
  by code_simp

text \<open>
  The object made of the members of a document has their names as its keys, the first of
  them at the head; \<open>Object.keys\<close> enumerates the same keys, the least array index first if
  there is one, and in the order of creation if there is none.
\<close>

lemma keys_create_data_property:
  "map fst (create_data_property obj k v) =
     (if k \<in> fst ` set obj then map fst obj else map fst obj @ [k])"
  by (induction obj) (auto split: if_splits)

lemma object_from_keys: "fst ` set (object_from obj ms) = fst ` set obj \<union> fst ` set ms"
proof (induction obj ms rule: object_from.induct)
  case (1 obj)
  show ?case by simp
next
  case (2 obj k v members)
  have "fst ` set (create_data_property obj k v) = insert k (fst ` set obj)"
    using keys_create_data_property [of obj k v]
    by (metis (no_types, lifting) Un_insert_right insert_absorb list.set(1,2) list.set_map set_append sup_bot.right_neutral)
  with 2 show ?case by auto
qed

lemma object_from_hd:
  "obj \<noteq> [] \<Longrightarrow> object_from obj ms \<noteq> [] \<and> fst (hd (object_from obj ms)) = fst (hd obj)"
proof (induction obj ms rule: object_from.induct)
  case (1 obj)
  then show ?case by simp
next
  case (2 obj k v members)
  then obtain k' v' rest where o: "obj = (k', v') # rest" by (cases obj) auto
  then have "create_data_property obj k v \<noteq> [] \<and> fst (hd (create_data_property obj k v)) = fst (hd obj)"
    by simp
  with 2 show ?case by simp
qed

lemma object_of_hd:
  "ms \<noteq> [] \<Longrightarrow> object_of ms \<noteq> [] \<and> fst (hd (object_of ms)) = fst (hd ms)"
proof (cases ms)
  case Nil
  assume "ms \<noteq> []"
  with Nil show ?thesis by simp
next
  case (Cons m ms')
  obtain k v where m: "m = (k, v)" by (cases m)
  have "object_from [(k, v)] ms' \<noteq> [] \<and> fst (hd (object_from [(k, v)] ms')) = fst (hd [(k, v)])"
    by (rule object_from_hd) simp
  with Cons m show ?thesis by (simp add: object_of_def)
qed

lemma object_of_keys: "fst ` set (object_of ms) = fst ` set ms"
  by (simp add: object_of_def object_from_keys)

lemma Object_keys_set: "set (Object_keys obj) = fst ` set obj"
  by (auto simp: Object_keys_def)

lemma Object_keys_length: "length (Object_keys obj) = length obj"
  using sum_length_filter_compl [of is_array_index "map fst obj"]
  by (simp add: Object_keys_def)

lemma Object_keys_no_index:
  "\<forall>k \<in> fst ` set obj. \<not> is_array_index k \<Longrightarrow> Object_keys obj = map fst obj"
proof -
  assume a: "\<forall>k \<in> fst ` set obj. \<not> is_array_index k"
  then have "filter is_array_index (map fst obj) = []"
    by (auto simp: filter_empty_conv)
  moreover from a have "filter (\<lambda>k. \<not> is_array_index k) (map fst obj) = map fst obj"
    by (auto simp: filter_id_conv)
  ultimately show ?thesis by (simp add: Object_keys_def)
qed

lemma sorted_hd_least:
  "sorted (map f ys) \<Longrightarrow> y \<in> set ys \<Longrightarrow> f (hd ys) \<le> f y"
  by (cases ys) auto

lemma Object_keys_index:
  assumes "k \<in> fst ` set obj" and "is_array_index k"
  shows "is_array_index (hd (Object_keys obj)) \<and> digits_val (hd (Object_keys obj)) \<le> digits_val k"
proof -
  let ?xs = "filter is_array_index (map fst obj)"
  let ?ys = "sort_key digits_val ?xs"
  from assms have k: "k \<in> set ?ys" by auto
  then have ne: "?ys \<noteq> []" by (metis empty_iff empty_set)
  then have h: "hd (Object_keys obj) = hd ?ys" by (simp add: Object_keys_def)
  from ne have "hd ?ys \<in> set ?ys" by (rule hd_in_set)
  then have i: "is_array_index (hd ?ys)" by auto
  have "sorted (map digits_val ?ys)" by (rule sorted_sort_key)
  from sorted_hd_least [OF this k] have "digits_val (hd ?ys) \<le> digits_val k" .
  with i h show ?thesis by simp
qed

lemma resume_resolved:
  assumes "ok resp" and "json resp = JsonResolved data" and "usd data \<noteq> []"
  shows "targetCurrency (commit (fetchCurrencyData_resume (FetchResolved resp)) st) =
           hd (Object_keys (object_of (usd data))) \<and>
         rates (commit (fetchCurrencyData_resume (FetchResolved resp)) st) = object_of (usd data)"
proof -
  from assms(3) have "object_of (usd data) \<noteq> []" by (simp add: object_of_hd)
  then have "Object_keys (object_of (usd data)) \<noteq> []"
    using Object_keys_length [of "object_of (usd data)"] by auto
  with assms(1,2) show ?thesis
    by (simp add: fetchCurrencyData_resume_def try_block_def finally_block_def commit_def
          hd_conv_nth)
qed

text \<open>
  Claim C6, as the code has it.  When the request resolves to a response with a success
  status whose document has a non-empty rate mapping, the mapping is stored and the target
  currency becomes its first key in the order of \<open>Object.keys\<close>.  That key is a key of the
  mapping; it is the first key in the order the server returned when no key is an array
  index, and the numerically least array index among the keys otherwise.
\<close>

theorem default_target_is_first_enumerated_key:
  "ok resp \<Longrightarrow> json resp = JsonResolved data \<Longrightarrow> usd data \<noteq> [] \<Longrightarrow>
     rates (commit (fetchCurrencyData_resume (FetchResolved resp)) st) = object_of (usd data) \<and>
     targetCurrency (commit (fetchCurrencyData_resume (FetchResolved resp)) st) =
       hd (Object_keys (object_of (usd data))) \<and>
     targetCurrency (commit (fetchCurrencyData_resume (FetchResolved resp)) st) \<in> fst ` set (usd data) \<and>
     (if \<exists>k \<in> fst ` set (usd data). is_array_index k
      then is_array_index (targetCurrency (commit (fetchCurrencyData_resume (FetchResolved resp)) st)) \<and>
           (\<forall>k \<in> fst ` set (usd data). is_array_index k \<longrightarrow>
              digits_val (targetCurrency (commit (fetchCurrencyData_resume (FetchResolved resp)) st))
                \<le> digits_val k)
      else targetCurrency (commit (fetchCurrencyData_resume (FetchResolved resp)) st) =
             fst (hd (usd data)))"
proof -
  assume a: "ok resp" "json resp = JsonResolved data" "usd data \<noteq> []"
  let ?t = "targetCurrency (commit (fetchCurrencyData_resume (FetchResolved resp)) st)"
  let ?obj = "object_of (usd data)"
  from resume_resolved [OF a]
  have t: "?t = hd (Object_keys ?obj)"
    and r: "rates (commit (fetchCurrencyData_resume (FetchResolved resp)) st) = ?obj"
    by auto
  from a(3) have ne: "?obj \<noteq> []" and h: "fst (hd ?obj) = fst (hd (usd data))"
    by (simp_all add: object_of_hd)
  have ks: "fst ` set ?obj = fst ` set (usd data)" by (rule object_of_keys)
  from ne have "Object_keys ?obj \<noteq> []"
    using Object_keys_length [of ?obj] by auto
  then have "hd (Object_keys ?obj) \<in> set (Object_keys ?obj)" by (rule hd_in_set)
  then have m: "?t \<in> fst ` set (usd data)" by (simp add: t Object_keys_set ks)
  have c: "if \<exists>k \<in> fst ` set (usd data). is_array_index k
      then is_array_index ?t \<and>
           (\<forall>k \<in> fst ` set (usd data). is_array_index k \<longrightarrow> digits_val ?t \<le> digits_val k)
      else ?t = fst (hd (usd data))"
  proof (cases "\<exists>k \<in> fst ` set (usd data). is_array_index k")
    case True
    then obtain k0 where k0: "k0 \<in> fst ` set ?obj" "is_array_index k0" using ks by auto
    have "is_array_index ?t" using Object_keys_index [OF k0] t by simp
    moreover have "\<forall>k \<in> fst ` set (usd data). is_array_index k \<longrightarrow> digits_val ?t \<le> digits_val k"
    proof (intro ballI impI)
      fix k assume "k \<in> fst ` set (usd data)" "is_array_index k"
      then have "k \<in> fst ` set ?obj" "is_array_index k" using ks by auto
      from Object_keys_index [OF this] t show "digits_val ?t \<le> digits_val k" by simp
    qed
    ultimately show ?thesis using True by simp
  next
    case False
    then have "\<forall>k \<in> fst ` set ?obj. \<not> is_array_index k" using ks by auto
    then have "Object_keys ?obj = map fst ?obj" by (rule Object_keys_no_index)
    with ne h t have "?t = fst (hd (usd data))" by (simp add: hd_map)
    with False show ?thesis by simp
  qed
  from r t m c show ?thesis by blast
qed

theorem default_target_is_first_enumerated_key_witness:
  "usd example_document \<noteq> [] \<and>
   \<not> (\<exists>k \<in> fst ` set (usd example_document). is_array_index k) \<and>
   targetCurrency (loaded example_document) = ''eur''"
proof -
  have o: "ok \<lparr> status = 200, json = JsonResolved example_document \<rparr>" by (simp add: ok_def)
  have j: "json \<lparr> status = 200, json = JsonResolved example_document \<rparr> = JsonResolved example_document"
    by simp
  have n: "usd example_document \<noteq> []" by (simp add: example_document_def example_rates_def)
  have "\<not> is_array_index ''eur''" "\<not> is_array_index ''gbp''" by code_simp+
  then have x: "\<not> (\<exists>k \<in> fst ` set (usd example_document). is_array_index k)"
    by (simp add: example_document_def example_rates_def)
  have f: "fst (hd (usd example_document)) = ''eur''"
    by (simp add: example_document_def example_rates_def)
  note th = default_target_is_first_enumerated_key
    [OF o j n, of "app mount", THEN conjunct2, THEN conjunct2, THEN conjunct2]
  have "targetCurrency (loaded example_document) = fst (hd (usd example_document))"
    unfolding loaded_def resolved_def using th by (simp only: x if_False)
  with n x f show ?thesis by simp
qed

text \<open>
  Claim C6 as stated fails for the document \<open>{date: "2024-01-01", usd: {"eur": 0.9, "1": 5}}\<close>:
  the first key the server returned is \<open>eur\<close>, and the default target currency is \<open>1\<close>.
\<close>

theorem index_key_counterexample:
  "map_option app (run [Settled (resolved index_key_document)] mount) =
     Some (loaded index_key_document) \<and>
   usd index_key_document \<noteq> [] \<and>
   fst (hd (usd index_key_document)) = ''eur'' \<and>
   targetCurrency (loaded index_key_document) = ''1''"
  by code_simp

section \<open>Properties of the life of the component\<close>

text \<open>No handler issues a request, writes \<open>loading\<close> or changes the fetch state.\<close>

lemma mount_waiting: "waiting mount"
  by (simp add: waiting_def mount_def perform_def fetchCurrencyData_start_def commit_def
        fetches_def initial_state_def)

lemma fetches_handleAmountChange: "fetches (handleAmountChange v) = []"
  by (simp add: handleAmountChange_def fetches_def)

lemma fetches_handleConvert: "fetches (handleConvert st) = []"
  by (simp add: handleConvert_def fetches_def Let_def)

lemma fetches_resume: "fetches (fetchCurrencyData_resume r) = []"
  by (simp add: fetchCurrencyData_resume_def try_block_def catch_block_def finally_block_def
        fetches_def split: fetch_result.splits json_result.splits thrown.splits)

lemma FetchState_handleAmountChange:
  "FetchState (commit (handleAmountChange v) st) = FetchState st \<and>
   loading (commit (handleAmountChange v) st) = loading st"
  by (simp add: handleAmountChange_def commit_def FetchState_def split: option.splits)

lemma FetchState_handleConvert:
  "FetchState (commit (handleConvert st) st) = FetchState st \<and>
   loading (commit (handleConvert st) st) = loading st"
  by (simp add: handleConvert_def commit_def FetchState_def Let_def split: option.splits)

lemma FetchState_handleCurrencyChange:
  "FetchState (commit (handleCurrencyChange c) st) = FetchState st \<and>
   loading (commit (handleCurrencyChange c) st) = loading st"
  by (simp add: handleCurrencyChange_def commit_def FetchState_def split: option.splits)

lemma loading_resume: "\<not> loading (commit (fetchCurrencyData_resume r) st)"
  by (simp add: fetchCurrencyData_resume_def try_block_def catch_block_def finally_block_def
        commit_def split: fetch_result.splits json_result.splits thrown.splits)

lemma fetches_handleCurrencyChange: "fetches (handleCurrencyChange c) = []"
  by (simp add: handleCurrencyChange_def fetches_def)

lemma step_finished:
  assumes "finished s" and "step ev s = Some s'"
  shows "finished s' \<and> FetchState (app s') = FetchState (app s) \<and> \<not> is_settled ev"
proof (cases ev)
  case (Settled r)
  with assms show ?thesis by (simp add: step_def finished_def)
next
  case (AmountTyped v)
  with assms show ?thesis
    by (auto simp: step_def finished_def perform_def fetches_handleAmountChange
          FetchState_handleAmountChange)
next
  case (CurrencyChosen c)
  with assms show ?thesis
    by (auto simp: step_def finished_def perform_def fetches_handleCurrencyChange
          FetchState_handleCurrencyChange split: if_splits)
next
  case ConvertClicked
  with assms show ?thesis
    by (auto simp: step_def finished_def perform_def fetches_handleConvert
          FetchState_handleConvert split: if_splits)
qed

lemma step_waiting:
  assumes "waiting s" and "step ev s = Some s'"
  shows "if is_settled ev then finished s' \<and> FetchState (app s') \<noteq> Loading
         else waiting s' \<and> FetchState (app s') = Loading"
proof (cases ev)
  case (Settled r)
  with assms show ?thesis
    by (auto simp: step_def waiting_def finished_def perform_def fetches_resume loading_resume
          FetchState_def split: option.splits)
next
  case (AmountTyped v)
  with assms show ?thesis
    by (auto simp: step_def waiting_def perform_def fetches_handleAmountChange
          FetchState_handleAmountChange FetchState_def)
next
  case (CurrencyChosen c)
  with assms show ?thesis by (simp add: step_def waiting_def render_def)
next
  case ConvertClicked
  with assms show ?thesis by (simp add: step_def waiting_def render_def)
qed

lemma run_finished:
  "finished s \<Longrightarrow> run evs s = Some s' \<Longrightarrow>
     finished s' \<and> trajectory evs s = replicate (Suc (length evs)) (FetchState (app s)) \<and>
     filter is_settled evs = []"
proof (induction evs arbitrary: s)
  case Nil
  then show ?case by simp
next
  case (Cons ev evs)
  from Cons.prems obtain s1 where s1: "step ev s = Some s1" "run evs s1 = Some s'"
    by (auto split: option.splits)
  from step_finished [OF Cons.prems(1) s1(1)]
  have f: "finished s1" "FetchState (app s1) = FetchState (app s)" "\<not> is_settled ev" by auto
  from Cons.IH [OF f(1) s1(2)] f s1 show ?case by simp
qed

lemma run_waiting:
  "waiting s \<Longrightarrow> run evs s = Some s' \<Longrightarrow>
     (\<exists>n m X. X \<noteq> Loading \<and> trajectory evs s = replicate (Suc n) Loading @ replicate m X \<and>
        (m = 0 \<longleftrightarrow> filter is_settled evs = [])) \<and>
     length (filter is_settled evs) \<le> 1 \<and>
     (if filter is_settled evs = [] then waiting s' else finished s')"
proof (induction evs arbitrary: s)
  case Nil
  then have "trajectory [] s = replicate (Suc 0) Loading @ replicate 0 (Failure [])"
    by (simp add: waiting_def FetchState_def)
  then have "\<exists>n m X. X \<noteq> Loading \<and> trajectory [] s = replicate (Suc n) Loading @ replicate m X \<and>
        (m = 0 \<longleftrightarrow> filter is_settled [] = [])"
    by (intro exI [of _ 0] exI [of _ "Failure []"]) simp
  with Nil show ?case by simp
next
  case (Cons ev evs)
  from Cons.prems obtain s1 where s1: "step ev s = Some s1" "run evs s1 = Some s'"
    by (auto split: option.splits)
  have l: "FetchState (app s) = Loading"
    using Cons.prems(1) by (simp add: waiting_def FetchState_def)
  show ?case
  proof (cases "is_settled ev")
    case True
    with step_waiting [OF Cons.prems(1) s1(1)]
    have f: "finished s1" "FetchState (app s1) \<noteq> Loading" by auto
    from run_finished [OF f(1) s1(2)]
    have r: "finished s'" "trajectory evs s1 = replicate (Suc (length evs)) (FetchState (app s1))"
      "filter is_settled evs = []" by auto
    have "trajectory (ev # evs) s =
        replicate (Suc 0) Loading @ replicate (Suc (length evs)) (FetchState (app s1))"
      using l s1 r by simp
    then have "\<exists>n m X. X \<noteq> Loading \<and>
        trajectory (ev # evs) s = replicate (Suc n) Loading @ replicate m X \<and>
        (m = 0 \<longleftrightarrow> filter is_settled (ev # evs) = [])"
      using f(2) True
      by (intro exI [of _ 0] exI [of _ "Suc (length evs)"] exI [of _ "FetchState (app s1)"]) simp
    with True r show ?thesis by simp
  next
    case False
    with step_waiting [OF Cons.prems(1) s1(1)]
    have w: "waiting s1" "FetchState (app s1) = Loading" by auto
    from Cons.IH [OF w(1) s1(2)] obtain n m X where
      ih: "X \<noteq> Loading" "trajectory evs s1 = replicate (Suc n) Loading @ replicate m X"
        "m = 0 \<longleftrightarrow> filter is_settled evs = []"
        "length (filter is_settled evs) \<le> 1"
        "if filter is_settled evs = [] then waiting s' else finished s'"
      by blast
    have "trajectory (ev # evs) s = replicate (Suc (Suc n)) Loading @ replicate m X"
      using l s1 ih(2) by simp
    then have "\<exists>n m X. X \<noteq> Loading \<and>
        trajectory (ev # evs) s = replicate (Suc n) Loading @ replicate m X \<and>
        (m = 0 \<longleftrightarrow> filter is_settled (ev # evs) = [])"
      using ih(1,3) False
      by (intro exI [of _ "Suc n"] exI [of _ m] exI [of _ X]) simp
    with False ih show ?thesis by simp
  qed
qed

lemma transitions_replicate: "transitions (replicate n x) = 0"
proof (induction n)
  case 0
  show ?case by simp
next
  case (Suc n)
  then show ?case by (cases n) simp_all
qed

lemma transitions_two_phases:
  "x \<noteq> y \<Longrightarrow> transitions (replicate (Suc n) x @ replicate m y) = (if m = 0 then 0 else 1)"
proof (induction n)
  case 0
  then show ?case
    using transitions_replicate [of m y] by (cases m) simp_all
next
  case (Suc n)
  then show ?case by simp
qed

text \<open>
  Claim C7, as the code has it.  In every life of the component exactly one request is
  issued, at mount, whatever the user does.  The fetch states the life goes through are
  \<open>Loading\<close> one or more times and then one and the same outcome, a success or a failure:
  the state starts in loading, changes when the request settles, which happens at most
  once, and never changes again.  It changes exactly once in a life in which the request
  settles and not at all in one in which it does not: nothing times the request out.
\<close>

theorem fetch_lifecycle:
  "run evs mount = Some s \<Longrightarrow>
     issued s = 1 \<and>
     length (filter is_settled evs) \<le> 1 \<and>
     (\<exists>n m X. X \<noteq> Loading \<and> trajectory evs mount = replicate (Suc n) Loading @ replicate m X \<and>
        (m = 0 \<longleftrightarrow> filter is_settled evs = [])) \<and>
     transitions (trajectory evs mount) = length (filter is_settled evs)"
proof -
  assume r: "run evs mount = Some s"
  note w = run_waiting [OF mount_waiting r]
  from w obtain n m X where
    t: "X \<noteq> Loading" "trajectory evs mount = replicate (Suc n) Loading @ replicate m X"
      "m = 0 \<longleftrightarrow> filter is_settled evs = []"
    by blast
  from w have c: "length (filter is_settled evs) \<le> 1" by simp
  from w have i: "issued s = 1" by (auto simp: waiting_def finished_def split: if_splits)
  have "transitions (trajectory evs mount) = (if m = 0 then 0 else 1)"
    unfolding t(2) by (rule transitions_two_phases) (use t(1) in simp)
  also have "\<dots> = length (filter is_settled evs)"
    using t(3) c by (cases "filter is_settled evs") auto
  finally have tr: "transitions (trajectory evs mount) = length (filter is_settled evs)" .
  from w i c tr show ?thesis by blast
qed

theorem fetch_lifecycle_witness:
  "run [AmountTyped ''2'', Settled (resolved example_document), ConvertClicked] mount \<noteq> None \<and>
   transitions (trajectory [AmountTyped ''2'', Settled (resolved example_document), ConvertClicked] mount) = 1"
proof -
  have "run [AmountTyped ''2'', Settled (resolved example_document), ConvertClicked] mount \<noteq> None"
    by code_simp
  then obtain s where
    r: "run [AmountTyped ''2'', Settled (resolved example_document), ConvertClicked] mount = Some s"
    by blast
  from fetch_lifecycle [OF r] r show ?thesis by simp
qed

text \<open>
  Claim C7 as stated fails for a life in which the request does not settle: the user types
  twice, the fetch state never leaves loading and makes no transition.
\<close>

theorem never_settled_counterexample:
  "run typing_only mount \<noteq> None \<and>
   transitions (trajectory typing_only mount) = 0 \<and>
   last (trajectory typing_only mount) = Loading"
  by code_simp

end
